theory Spec2Isabelle
  imports Complex_Main
begin

section \<open>Unit handling of the energy-system preprocessing (class UnitHandling)\<close>

text \<open>
  The class \<^verbatim>\<open>UnitHandling\<close> of \<^verbatim>\<open>src/preprocess/functions/unit_handling.py\<close>
  builds a dimensionality matrix of the configured base units (\<^verbatim>\<open>getBaseUnits\<close>) and converts
  unit strings into multipliers (\<^verbatim>\<open>getUnitMultiplier\<close>).

  Conventions of the embedding:
  \<^item> Python floats (magnitudes, echelon-form entries, solutions of linear systems) are exact
    rationals (\<open>rat\<close>), so floating-point round-off is idealised away;
  \<^item> exponents of units and dimensions are integers;
  \<^item> every \<^verbatim>\<open>raise\<close>, failing \<^verbatim>\<open>assert\<close> and library exception is a value \<open>Inl e\<close>
    of the result type \<open>error + 'a\<close>;
  \<^item> the unit registry (the \<^verbatim>\<open>pint\<close> library) is a parameter: a record of the functions
    the class calls on it.
\<close>

subsection \<open>Errors\<close>

text \<open>
  The first eight constructors are the raise sites of the class itself: the \<^verbatim>\<open>KeyError\<close> of
  line 52 and the \<^verbatim>\<open>assert\<close> statements of lines 75, 82, 178, 110, 152, 153 and 157, in the
  order of the error taxonomy of the specification. The others are exceptions of the
  libraries the class calls.
\<close>

datatype error =
    DuplicateDimensionError "(string \<times> int) list" string
  | AmbiguousDependencyOrderError "string list"
  | ConstructibleBaseUnitError "string list"
  | AmbiguousUnitTokenError string
  | MissingDimensionError "string list"
  | UnresolvedConversionError string "string list"
  | InternalConsistencyError string
  | ToleranceError rat string rat
  | UndefinedUnitError string
  | IndexError
  | AxisError
  | TypeError
  | ValueError
  | LinAlgError
  | ZeroDivisionError
  | AttributeError
  | KeyError string

subsection \<open>Unit containers and quantities\<close>

text \<open>
  A units container maps names to exponents, in insertion order. Multiplication adds
  exponents and deletes a key whose exponent becomes zero; a power multiplies every
  exponent and keeps the keys.
\<close>

type_synonym units_container = "(string \<times> int) list"

fun uc_add :: "string \<Rightarrow> int \<Rightarrow> units_container \<Rightarrow> units_container" where
  "uc_add k v [] = (if v = 0 then [] else [(k, v)])"
| "uc_add k v ((k', v') # us) =
     (if k = k' then (if v' + v = 0 then us else (k', v' + v) # us)
      else (k', v') # uc_add k v us)"

fun uc_mul :: "units_container \<Rightarrow> units_container \<Rightarrow> units_container" where
  "uc_mul a [] = a"
| "uc_mul a ((k, v) # b) = uc_mul (uc_add k v a) b"

definition uc_pow :: "units_container \<Rightarrow> int \<Rightarrow> units_container" where
  "uc_pow a e = map (\<lambda>(k, v). (k, v * e)) a"

definition uc_get :: "units_container \<Rightarrow> string \<Rightarrow> int" where
  "uc_get a k = (case map_of a k of None \<Rightarrow> 0 | Some v \<Rightarrow> v)"

record quantity =
  magnitude :: rat
  units :: units_container

text \<open>Integer powers of a magnitude.\<close>

definition rat_pow :: "rat \<Rightarrow> int \<Rightarrow> rat" where
  "rat_pow x e = (if 0 \<le> e then x ^ nat e else inverse x ^ nat (- e))"

definition qmul :: "quantity \<Rightarrow> quantity \<Rightarrow> quantity" where
  "qmul a b = \<lparr>magnitude = magnitude a * magnitude b, units = uc_mul (units a) (units b)\<rparr>"

text \<open>\<^verbatim>\<open>q ** e\<close>: Python raises \<^verbatim>\<open>ZeroDivisionError\<close> for a zero magnitude and a
  negative exponent.\<close>

definition qpow :: "quantity \<Rightarrow> int \<Rightarrow> error + quantity" where
  "qpow q e =
     (if magnitude q = 0 \<and> e < 0 then Inl ZeroDivisionError
      else Inr \<lparr>magnitude = rat_pow (magnitude q) e, units = uc_pow (units q) e\<rparr>)"

text \<open>\<^verbatim>\<open>ureg(s).units\<close>: the unit of a quantity, without its numeric magnitude.\<close>

definition units_of :: "quantity \<Rightarrow> quantity" where
  "units_of q = \<lparr>magnitude = 1, units = units q\<rparr>"

subsection \<open>The unit registry\<close>

text \<open>
  What the class uses of the registry: parsing a string into a quantity
  (\<^verbatim>\<open>ureg(s)\<close>, \<open>None\<close> when the registry rejects the string), and for every named unit its
  conversion factor to root units, its root units and its dimensionality.
\<close>

record unit_registry =
  parse_expression :: "string \<Rightarrow> quantity option"
  factor :: "string \<Rightarrow> rat"
  root_units :: "string \<Rightarrow> units_container"
  dimension :: "string \<Rightarrow> units_container"

fun expand :: "(string \<Rightarrow> units_container) \<Rightarrow> units_container \<Rightarrow> units_container \<Rightarrow> units_container" where
  "expand f acc [] = acc"
| "expand f acc ((k, e) # us) = expand f (uc_mul acc (uc_pow (f k) e)) us"

definition get_dimensionality :: "unit_registry \<Rightarrow> quantity \<Rightarrow> units_container" where
  "get_dimensionality reg q = expand (dimension reg) [] (units q)"

text \<open>
  \<^verbatim>\<open>to_base_units\<close> multiplies the magnitude by the conversion factor of the unit expression,
  here the exact product of the factors of its units to their powers. The registry computes
  this product in double precision, so its result can differ from the exact one in the last
  digits; it is the same where every factor and every partial product is a double (small
  integers and their products, for instance).
\<close>

fun factor_of :: "unit_registry \<Rightarrow> units_container \<Rightarrow> rat" where
  "factor_of reg [] = 1"
| "factor_of reg ((k, e) # us) = rat_pow (factor reg k) e * factor_of reg us"

definition to_base_units :: "unit_registry \<Rightarrow> quantity \<Rightarrow> quantity" where
  "to_base_units reg q =
     \<lparr>magnitude = magnitude q * factor_of reg (units q),
      units = expand (root_units reg) [] (units q)\<rparr>"

definition unitless :: "quantity \<Rightarrow> bool" where
  "unitless q = (units q = [])"

text \<open>The magnitude of a unit expression relative to the root units.\<close>

definition magnitudeOf :: "unit_registry \<Rightarrow> quantity \<Rightarrow> rat" where
  "magnitudeOf reg q = magnitude (to_base_units reg q)"

subsection \<open>The dimensionality matrix\<close>

text \<open>
  A data frame with the dimensions as row labels and the base units as column labels,
  kept column by column. Column labels may repeat while the matrix is built.
\<close>

record dim_matrix =
  dm_index :: "string list"
  dm_columns :: "(string \<times> int list) list"

fun add_new :: "string list \<Rightarrow> string list \<Rightarrow> string list" where
  "add_new seen [] = seen"
| "add_new seen (k # ks) = add_new (if k \<in> set seen then seen else seen @ [k]) ks"

fun dict_set :: "string \<Rightarrow> 'v \<Rightarrow> (string \<times> 'v) list \<Rightarrow> (string \<times> 'v) list" where
  "dict_set k v [] = [(k, v)]"
| "dict_set k v ((k', v') # kvs) = (if k = k' then (k', v) # kvs else (k', v') # dict_set k v kvs)"

text \<open>Lines 34-37: the dimensionality of every listed base unit.\<close>

fun unit_dims :: "unit_registry \<Rightarrow> string list \<Rightarrow> error + (string \<times> units_container) list" where
  "unit_dims reg [] = Inr []"
| "unit_dims reg (b # bs) =
     (case parse_expression reg b of
        None \<Rightarrow> Inl (UndefinedUnitError b)
      | Some q \<Rightarrow>
          (case unit_dims reg bs of
             Inl e \<Rightarrow> Inl e
           | Inr rest \<Rightarrow> Inr ((b, get_dimensionality reg q) # rest)))"

text \<open>Lines 32-38: the dictionary \<^verbatim>\<open>baseUnits\<close> and the matrix, missing entries filled
  with 0, transposed.\<close>

definition make_baseUnits :: "(string \<times> units_container) list \<Rightarrow> (string \<times> units_container) list" where
  "make_baseUnits rows = fold (\<lambda>(b, dimUnit). dict_set b dimUnit) rows []"

definition make_dimMatrix :: "(string \<times> units_container) list \<Rightarrow> dim_matrix" where
  "make_dimMatrix rows =
     (let idx = fold (\<lambda>(b, dimUnit) seen. add_new seen (map fst dimUnit)) rows []
      in \<lparr>dm_index = idx,
          dm_columns = map (\<lambda>(b, dimUnit). (b, map (uc_get dimUnit) idx)) rows\<rparr>)"

subsection \<open>Duplicate base units (lines 40-52)\<close>

text \<open>\<^verbatim>\<open>dimMatrix.T.duplicated()\<close>: a column is flagged when an earlier column has the
  same entries.\<close>

fun duplicated :: "int list list \<Rightarrow> (string \<times> int list) list \<Rightarrow> string list" where
  "duplicated seen [] = []"
| "duplicated seen ((l, c) # cs) =
     (if c \<in> set seen then l # duplicated seen cs else duplicated (c # seen) cs)"

fun drop_duplicates :: "int list list \<Rightarrow> int list list \<Rightarrow> int list list" where
  "drop_duplicates seen [] = seen"
| "drop_duplicates seen (c # cs) = drop_duplicates (if c \<in> set seen then seen else seen @ [c]) cs"

definition columns_of :: "dim_matrix \<Rightarrow> string \<Rightarrow> int list list" where
  "columns_of m l = map snd (filter (\<lambda>c. fst c = l) (dm_columns m))"

definition drop_columns :: "string list \<Rightarrow> (string \<times> int list) list \<Rightarrow> (string \<times> int list) list" where
  "drop_columns ls cs = filter (\<lambda>c. fst c \<notin> set ls) cs"

text \<open>
  The loop over the flagged columns. A label that heads more than one column is the same
  unit listed more than once: a warning is logged (the list of warned labels is returned)
  and its columns are replaced by one column appended last. A label heading a single column
  raises the \<^verbatim>\<open>KeyError\<close>.
\<close>

fun dedup_loop ::
  "(string \<times> units_container) list \<Rightarrow> string list \<Rightarrow> dim_matrix \<Rightarrow> string list
     \<Rightarrow> error + (dim_matrix \<times> string list)" where
  "dedup_loop baseUnits [] m warned = Inr (m, warned)"
| "dedup_loop baseUnits (l # ls) m warned =
     (if 1 < length (columns_of m l) then
        (case drop_duplicates [] (columns_of m l) of
           [c] \<Rightarrow> dedup_loop baseUnits ls
                    (m\<lparr>dm_columns := drop_columns [l] (dm_columns m) @ [(l, c)]\<rparr>) (warned @ [l])
         | _ \<Rightarrow> Inl ValueError)
      else
        (case map_of baseUnits l of
           None \<Rightarrow> Inl (KeyError l)
         | Some d \<Rightarrow> Inl (DuplicateDimensionError d l)))"

text \<open>Lines 41-52.\<close>

definition check_duplicates ::
  "(string \<times> units_container) list \<Rightarrow> dim_matrix \<Rightarrow> error + (dim_matrix \<times> string list)" where
  "check_duplicates baseUnits m = dedup_loop baseUnits (duplicated [] (dm_columns m)) m []"

subsection \<open>Column echelon form\<close>

text \<open>
  \<^verbatim>\<open>column_echelon_form(matrix, ntype=float)\<close> of \<^verbatim>\<open>pint.util\<close>, which line 54 calls:
  Gauss-Jordan elimination on the rows of the transposed matrix, carrying the transformed
  identity along and recording, for every pivot, the position of the row swapped into
  place. \<open>find_lead\<close> is its inner \<^verbatim>\<open>while M[i][lead] == 0\<close> loop, \<open>cef_loop\<close> the loop over
  the rows.

  The entries are exact rationals, while line 54 computes in double precision
  (\<^verbatim>\<open>ntype=float\<close>). The two agree as long as every quotient and difference of the
  elimination is a double, as for matrices whose elimination stays within the integers;
  where a quotient is inexact, a row that is exactly zero here can keep a residue of the
  order of \<open>10^(-16)\<close> there, and the dependency vectors differ.
\<close>

definition zip_star :: "'a list list \<Rightarrow> 'a list list" where
  "zip_star xss =
     (case xss of
        [] \<Rightarrow> []
      | xs # _ \<Rightarrow> map (\<lambda>j. map (\<lambda>row. row ! j) xss)
                   [0..<foldr (\<lambda>row m. min (length row) m) xss (length xs)])"

function find_lead :: "rat list list \<Rightarrow> nat \<Rightarrow> nat \<Rightarrow> nat \<Rightarrow> nat \<Rightarrow> nat \<Rightarrow> (nat \<times> nat) option" where
  "find_lead M rows cols r i lead =
     (if i < rows \<and> lead < cols then
        (if M ! i ! lead \<noteq> 0 then Some (i, lead)
         else if i + 1 \<noteq> rows then find_lead M rows cols r (i + 1) lead
         else if cols = lead + 1 then None
         else find_lead M rows cols r r (lead + 1))
      else None)"
  by pat_completeness auto
termination
  by (relation "measures [\<lambda>(M, rows, cols, r, i, lead). cols - lead,
                          \<lambda>(M, rows, cols, r, i, lead). rows - i]") auto

definition eliminate :: "nat \<Rightarrow> nat \<Rightarrow> rat list list \<Rightarrow> rat list list \<Rightarrow> rat list list" where
  "eliminate r lead M X =
     map (\<lambda>i. if i = r then X ! i
              else map2 (\<lambda>rv iv. iv - (M ! i ! lead) * rv) (X ! r) (X ! i))
       [0..<length X]"

function cef_loop ::
  "nat \<Rightarrow> nat \<Rightarrow> nat \<Rightarrow> nat \<Rightarrow> rat list list \<Rightarrow> rat list list \<Rightarrow> nat list
     \<Rightarrow> rat list list \<times> rat list list \<times> nat list" where
  "cef_loop rows cols r lead M I swapped =
     (if r < rows then
        (if cols \<le> lead then (M, I, swapped)
         else
           (case find_lead M rows cols r r lead of
              None \<Rightarrow> (M, I, swapped)
            | Some (i, lead') \<Rightarrow>
                (let M1 = M[i := M ! r, r := M ! i];
                     I1 = I[i := I ! r, r := I ! i];
                     lv = M1 ! r ! lead';
                     M2 = M1[r := map (\<lambda>mrx. mrx / lv) (M1 ! r)];
                     I2 = I1[r := map (\<lambda>mrx. mrx / lv) (I1 ! r)]
                 in cef_loop rows cols (r + 1) (lead' + 1)
                      (eliminate r lead' M2 M2) (eliminate r lead' M2 I2) (swapped @ [i]))))
      else (M, I, swapped))"
  by pat_completeness auto
termination
  by (relation "measure (\<lambda>(rows, cols, r, lead, M, I, swapped). rows - r)") auto

definition identity_matrix :: "nat \<Rightarrow> rat list list" where
  "identity_matrix n = map (\<lambda>i. map (\<lambda>j. if i = j then 1 else 0) [0..<n]) [0..<n]"

text \<open>\<^verbatim>\<open>len(M[0])\<close> raises \<^verbatim>\<open>IndexError\<close> when the transposed matrix has no row.\<close>

definition column_echelon_form ::
  "int list list \<Rightarrow> error + (rat list list \<times> rat list list \<times> nat list)" where
  "column_echelon_form matrix =
     (case zip_star matrix of
        [] \<Rightarrow> Inl IndexError
      | row # rest \<Rightarrow>
          Inr (cef_loop (length (row # rest)) (length row) 0 0
                 (map (map rat_of_int) (row # rest)) (identity_matrix (length (row # rest))) []))"

subsection \<open>Dependent base units (lines 53-82)\<close>

text \<open>\<^verbatim>\<open>np.array(self.dimMatrix)\<close>: one row per dimension.\<close>

definition np_array :: "dim_matrix \<Rightarrow> int list list" where
  "np_array m = map (\<lambda>i. map (\<lambda>c. snd c ! i) (dm_columns m)) [0..<length (dm_index m)]"

text \<open>
  \<^verbatim>\<open>checkIfPosNegBoolean\<close>: \<^verbatim>\<open>np.array_equal(np.abs(row), np.abs(row).astype(bool))\<close>
  holds when every entry has absolute value 0 or 1. With \<^verbatim>\<open>axis=1\<close> the test is applied
  to every row and the results are joined by \<^verbatim>\<open>any()\<close>; \<^verbatim>\<open>np.apply_along_axis\<close> raises
  \<^verbatim>\<open>ValueError\<close> on an array without rows.
\<close>

definition checkIfPosNegBoolean :: "rat list \<Rightarrow> bool" where
  "checkIfPosNegBoolean array = list_all (\<lambda>x. \<bar>x\<bar> = (if \<bar>x\<bar> \<noteq> 0 then 1 else 0)) array"

definition checkIfPosNegBoolean_axis :: "rat list list \<Rightarrow> error + bool" where
  "checkIfPosNegBoolean_axis array =
     (if array = [] then Inl ValueError else Inr (list_ex checkIfPosNegBoolean array))"

text \<open>
  Lines 69-80. \<open>idx\<close> are the column positions of the dependent units
  (\<^verbatim>\<open>idxLinDepDimMatrix\<close>), \<open>width\<close> the length of the rows of \<^verbatim>\<open>dependentDims\<close>.
  \<^verbatim>\<open>posOnes\<close> lists the positions of the entries equal to 1 row by row, and the rows
  are then picked by the column components of \<^verbatim>\<open>posOnes\<close>.
\<close>

definition posOnes :: "rat list list \<Rightarrow> (nat \<times> nat) list" where
  "posOnes A =
     concat (map (\<lambda>i. map (\<lambda>j. (i, j)) (filter (\<lambda>j. A ! i ! j = 1) [0..<length (A ! i)]))
       [0..<length A])"

definition reorder ::
  "string list \<Rightarrow> nat list \<Rightarrow> nat \<Rightarrow> rat list list \<Rightarrow> error + rat list list" where
  "reorder dependentUnits idx width dependentDims =
     (if list_ex (\<lambda>j. width \<le> j) idx then Inl IndexError
      else
        (let DimOfDependentUnits = map (\<lambda>row. map (\<lambda>j. row ! j) idx) dependentDims;
             diag = map (\<lambda>i. DimOfDependentUnits ! i ! i)
                      [0..<min (length DimOfDependentUnits) (length idx)]
         in if list_all (\<lambda>x. x = 1) diag then Inr dependentDims
            else
              (let pos = posOnes DimOfDependentUnits
               in if length pos \<noteq> length dependentUnits
                  then Inl (AmbiguousDependencyOrderError dependentUnits)
                  else if list_ex (\<lambda>p. length dependentDims \<le> snd p) pos then Inl IndexError
                  else Inr (map (\<lambda>p. dependentDims ! snd p) pos))))"

text \<open>
  Lines 55-80 on the result \<open>(M, I, pivot)\<close> of the echelon form. \<^verbatim>\<open>squeeze()\<close> removes
  an axis of length one, so \<^verbatim>\<open>np.all(M==0,axis=1)\<close> raises \<^verbatim>\<open>AxisError\<close> for a single base
  unit or a single dimension, a single pivot becomes a scalar that \<^verbatim>\<open>set.difference\<close>
  cannot iterate (\<^verbatim>\<open>TypeError\<close>), and a single zero row makes \<^verbatim>\<open>dependentDims\<close> a vector,
  which only the \<^verbatim>\<open>reshape\<close> of line 68 turns back into a matrix. The positions that are
  not pivots are listed in ascending order.
\<close>

definition dependency_rows ::
  "string list \<Rightarrow> string list \<Rightarrow> rat list list \<Rightarrow> rat list list \<Rightarrow> nat list
     \<Rightarrow> error + (string list \<times> rat list list)" where
  "dependency_rows keys cols M I pivot =
     (if length M = 1 \<or> (M \<noteq> [] \<and> length (hd M) = 1) then Inl AxisError
      else if length pivot = 1 then Inl TypeError
      else
        (let idxLinDep = filter (\<lambda>i. list_all (\<lambda>x. x = 0) (M ! i)) [0..<length M];
             idxLinDepDimMatrix = filter (\<lambda>i. i \<notin> set pivot) [0..<length keys]
         in if list_ex (\<lambda>i. length cols \<le> i) idxLinDepDimMatrix then Inl IndexError
            else
              (let dependentUnits = map (\<lambda>i. cols ! i) idxLinDepDimMatrix;
                   rows = map (\<lambda>i. I ! i) idxLinDep
               in if length dependentUnits \<noteq> 1 \<and> length idxLinDep = 1 then Inl IndexError
                  else
                    (case reorder dependentUnits idxLinDepDimMatrix
                            (if length dependentUnits = 1 then length (concat rows) else length I)
                            (if length dependentUnits = 1 then [concat rows] else rows) of
                       Inl e \<Rightarrow> Inl e
                     | Inr dependentDims \<Rightarrow> Inr (dependentUnits, dependentDims)))))"

text \<open>Lines 81-82: the assertion that no dependency vector has only the entries -1, 0
  and 1, on the rows as they stand after line 80.\<close>

definition dependency_analysis ::
  "string list \<Rightarrow> string list \<Rightarrow> rat list list \<Rightarrow> rat list list \<Rightarrow> nat list
     \<Rightarrow> error + (string list \<times> rat list list)" where
  "dependency_analysis keys cols M I pivot =
     (case dependency_rows keys cols M I pivot of
        Inl e \<Rightarrow> Inl e
      | Inr (dependentUnits, dependentDims) \<Rightarrow>
          (case checkIfPosNegBoolean_axis dependentDims of
             Inl e \<Rightarrow> Inl e
           | Inr True \<Rightarrow> Inl (ConstructibleBaseUnitError keys)
           | Inr False \<Rightarrow> Inr (dependentUnits, dependentDims)))"

subsection \<open>The engine and its construction\<close>

record engine =
  ureg :: unit_registry
  roundingDecimalPoints :: int
  baseUnits :: "(string \<times> units_container) list"
  dimMatrix :: dim_matrix
  dependentUnits :: "string list"
  dependentDims :: "rat list list"

text \<open>\<^verbatim>\<open>getBaseUnits\<close>, called by the constructor; the second component of the result
  lists the base units for which the duplicate warning was logged.\<close>

definition getBaseUnits ::
  "unit_registry \<Rightarrow> int \<Rightarrow> string list \<Rightarrow> error + (engine \<times> string list)" where
  "getBaseUnits reg roundDecimalPoints listBaseUnits =
     (case unit_dims reg listBaseUnits of
        Inl e \<Rightarrow> Inl e
      | Inr rows \<Rightarrow>
          (case check_duplicates (make_baseUnits rows) (make_dimMatrix rows) of
             Inl e \<Rightarrow> Inl e
           | Inr (m, warned) \<Rightarrow>
               (case column_echelon_form (np_array m) of
                  Inl e \<Rightarrow> Inl e
                | Inr (M, I, pivot) \<Rightarrow>
                    (case dependency_analysis (map fst (make_baseUnits rows))
                            (map fst (dm_columns m)) M I pivot of
                       Inl e \<Rightarrow> Inl e
                     | Inr (du, dd) \<Rightarrow>
                         Inr (\<lparr>ureg = reg, roundingDecimalPoints = roundDecimalPoints,
                               baseUnits = make_baseUnits rows, dimMatrix = m,
                               dependentUnits = du, dependentDims = dd\<rparr>, warned)))))"

subsection \<open>Solving linear systems\<close>

text \<open>
  \<^verbatim>\<open>np.linalg.solve(A, b)\<close> for a data frame \<open>A\<close> with \<open>d\<close> rows, given by its columns:
  \<^verbatim>\<open>LinAlgError\<close> when \<open>A\<close> is not square or is singular, the exact solution otherwise
  (Gauss-Jordan elimination on the augmented rows).

  \<^verbatim>\<open>np.linalg.solve\<close> itself factorises in double precision with partial pivoting, and its
  solution can differ from the exact one in the last digit (\<open>1.0000000000000002\<close> for 1):
  line 129 then does not see a vector of entries -1, 0 and 1, and the call takes the
  substitution path of lines 133-152 where this model composes the factor directly. What
  the class returns on the path of lines 123-132 is therefore not determined by this model.
\<close>

definition solve_step :: "nat \<Rightarrow> rat list list \<Rightarrow> rat list list option" where
  "solve_step c R =
     (case filter (\<lambda>i. R ! i ! c \<noteq> 0) [c..<length R] of
        [] \<Rightarrow> None
      | p # _ \<Rightarrow>
          (let R1 = R[p := R ! c, c := R ! p];
               lv = R1 ! c ! c;
               R2 = R1[c := map (\<lambda>x. x / lv) (R1 ! c)]
           in Some (eliminate c c R2 R2)))"

fun solve_steps :: "nat list \<Rightarrow> rat list list \<Rightarrow> rat list list option" where
  "solve_steps [] R = Some R"
| "solve_steps (c # cs) R = (case solve_step c R of None \<Rightarrow> None | Some R' \<Rightarrow> solve_steps cs R')"

definition linalg_solve :: "nat \<Rightarrow> (string \<times> int list) list \<Rightarrow> int list \<Rightarrow> error + rat list" where
  "linalg_solve d A b =
     (if length A \<noteq> d then Inl LinAlgError
      else
        (case solve_steps [0..<d]
                (map (\<lambda>i. map (\<lambda>c. rat_of_int (snd c ! i)) A @ [rat_of_int (b ! i)]) [0..<d]) of
           None \<Rightarrow> Inl LinAlgError
         | Some R \<Rightarrow> Inr (map last R)))"

subsection \<open>Rounding\<close>

text \<open>Python's \<^verbatim>\<open>round(x, ndigits)\<close>: to the nearest multiple of \<open>10^(-ndigits)\<close>, ties to
  the even multiple.\<close>

definition round_half_even :: "rat \<Rightarrow> int" where
  "round_half_even x =
     (let f = \<lfloor>x\<rfloor>; r = x - of_int f
      in if r < 1 / 2 then f else if 1 / 2 < r then f + 1 else if even f then f else f + 1)"

definition py_round :: "rat \<Rightarrow> int \<Rightarrow> rat" where
  "py_round x ndigits = of_int (round_half_even (x * rat_pow 10 ndigits)) / rat_pow 10 ndigits"

subsection \<open>The multiplier of an input unit (\<^verbatim>\<open>getUnitMultiplier\<close>)\<close>

text \<open>The argument is a string, the float \<^verbatim>\<open>nan\<close> (what the caller's data frames hold for a
  missing unit) or \<^verbatim>\<open>None\<close>.\<close>

datatype input_unit = Str string | NaN | NoneValue

text \<open>Lines 173-178.\<close>

definition checkIfInvalidHourString :: "engine \<Rightarrow> string \<Rightarrow> error + unit" where
  "checkIfInvalidHourString eng inputUnit =
     (case parse_expression (ureg eng) inputUnit of
        None \<Rightarrow> Inl (UndefinedUnitError inputUnit)
      | Some q \<Rightarrow>
          (if ''planck_constant'' \<in> set (map fst (units q))
           then Inl (AmbiguousUnitTokenError inputUnit) else Inr ()))"

text \<open>
  The loops of lines 131-132 and 148-149: \<^verbatim>\<open>combinedUnit *= self.ureg(unit)**(-1*power)\<close>.
  They run only on solutions that passed \<open>checkIfPosNegBoolean\<close>, whose powers are
  integers.
\<close>

fun compose :: "unit_registry \<Rightarrow> quantity \<Rightarrow> (string \<times> rat) list \<Rightarrow> error + quantity" where
  "compose reg combinedUnit [] = Inr combinedUnit"
| "compose reg combinedUnit ((unit, pwr) # rest) =
     (case parse_expression reg unit of
        None \<Rightarrow> Inl (UndefinedUnitError unit)
      | Some q \<Rightarrow>
          (case qpow q \<lfloor>- 1 * pwr\<rfloor> of
             Inl e \<Rightarrow> Inl e
           | Inr p \<Rightarrow> compose reg (qmul combinedUnit p) rest))"

fun index_of :: "string \<Rightarrow> string list \<Rightarrow> nat option" where
  "index_of x [] = None"
| "index_of x (y # ys) = (if x = y then Some 0 else map_option Suc (index_of x ys))"

definition dimMatrixReduced :: "engine \<Rightarrow> (string \<times> int list) list" where
  "dimMatrixReduced eng = drop_columns (dependentUnits eng) (dm_columns (dimMatrix eng))"

text \<open>Lines 139-151: the loop over the dependent units for one over-powered unit.\<close>

fun try_dependent ::
  "engine \<Rightarrow> int list \<Rightarrow> quantity \<Rightarrow> string \<Rightarrow> rat \<Rightarrow> (string \<times> rat list) list
     \<Rightarrow> error + quantity option" where
  "try_dependent eng dimVector combinedUnit unit pwr [] = Inr None"
| "try_dependent eng dimVector combinedUnit unit pwr ((dependentUnit, dependentDim) # rest) =
     (case index_of unit (map fst (dimMatrixReduced eng)) of
        None \<Rightarrow> Inl ValueError
      | Some idxUnitInMatrixReduced \<Rightarrow>
          (if length dependentDim \<le> idxUnitInMatrixReduced then Inl IndexError
           else if \<bar>dependentDim ! idxUnitInMatrixReduced\<bar> = \<bar>pwr\<bar> then
             (case columns_of (dimMatrix eng) dependentUnit of
                [] \<Rightarrow> Inl (KeyError dependentUnit)
              | [c] \<Rightarrow>
                  (let dimMatrixReducedTemp =
                         drop_columns [unit] (dimMatrixReduced eng) @ [(dependentUnit, c)]
                   in case linalg_solve (length (dm_index (dimMatrix eng)))
                             dimMatrixReducedTemp dimVector of
                        Inl e \<Rightarrow> Inl e
                      | Inr combinationSolutionTemp \<Rightarrow>
                          (if checkIfPosNegBoolean combinationSolutionTemp then
                             (case compose (ureg eng) combinedUnit
                                     (zip (map fst dimMatrixReducedTemp) combinationSolutionTemp) of
                                Inl e \<Rightarrow> Inl e
                              | Inr c' \<Rightarrow> Inr (Some c'))
                           else try_dependent eng dimVector combinedUnit unit pwr rest))
              | _ \<Rightarrow> Inl ValueError)
           else try_dependent eng dimVector combinedUnit unit pwr rest))"

text \<open>Lines 134-151: the loop over the units of the reduced matrix; once a substitution
  has succeeded the remaining iterations do nothing.\<close>

fun substitute ::
  "engine \<Rightarrow> int list \<Rightarrow> quantity \<Rightarrow> (string \<times> rat) list \<Rightarrow> error + quantity option" where
  "substitute eng dimVector combinedUnit [] = Inr None"
| "substitute eng dimVector combinedUnit ((unit, pwr) # rest) =
     (if 1 < \<bar>pwr\<bar> then
        (case try_dependent eng dimVector combinedUnit unit pwr
                (zip (dependentUnits eng) (dependentDims eng)) of
           Inl e \<Rightarrow> Inl e
         | Inr (Some c) \<Rightarrow> Inr (Some c)
         | Inr None \<Rightarrow> substitute eng dimVector combinedUnit rest)
      else substitute eng dimVector combinedUnit rest)"

text \<open>
  Lines 123-152: the exact solve over the independent units and the substitution search.
  \<^verbatim>\<open>drop\<close> raises \<^verbatim>\<open>KeyError\<close> for a label that heads no column. Without any column
  to compose, \<^verbatim>\<open>combinedUnit\<close> stays a bare unit, which has no \<^verbatim>\<open>to_base_units\<close>.
\<close>

definition solve_units :: "engine \<Rightarrow> string \<Rightarrow> int list \<Rightarrow> quantity \<Rightarrow> error + quantity" where
  "solve_units eng inputUnit dimVector combinedUnit =
     (case filter (\<lambda>l. l \<notin> set (map fst (dm_columns (dimMatrix eng)))) (dependentUnits eng) of
        l # _ \<Rightarrow> Inl (KeyError l)
      | [] \<Rightarrow>
          (case linalg_solve (length (dm_index (dimMatrix eng))) (dimMatrixReduced eng) dimVector of
             Inl e \<Rightarrow> Inl e
           | Inr combinationSolution \<Rightarrow>
               (if checkIfPosNegBoolean combinationSolution then
                  (if dimMatrixReduced eng = [] then Inl AttributeError
                   else compose (ureg eng) combinedUnit
                          (zip (map fst (dimMatrixReduced eng)) combinationSolution))
                else
                  (case substitute eng dimVector combinedUnit
                          (zip (map fst (dimMatrixReduced eng)) combinationSolution) of
                     Inl e \<Rightarrow> Inl e
                   | Inr None \<Rightarrow>
                       Inl (UnresolvedConversionError inputUnit (map fst (baseUnits eng)))
                   | Inr (Some c) \<Rightarrow> Inr c))))"

text \<open>Line 108-111: the dimensionality vector of the input over the rows of the matrix.\<close>

definition dimVector_of :: "engine \<Rightarrow> quantity \<Rightarrow> int list" where
  "dimVector_of eng q =
     map (uc_get (get_dimensionality (ureg eng) q)) (dm_index (dimMatrix eng))"

text \<open>Lines 115 and 119: \<^verbatim>\<open>isin(dimVector).all(axis=0)\<close> compares every column with the
  vector, row label by row label; the first matching column is used.\<close>

definition matching_columns :: "engine \<Rightarrow> int list \<Rightarrow> string list" where
  "matching_columns eng dimVector =
     map fst (filter (\<lambda>c. snd c = dimVector) (dm_columns (dimMatrix eng)))"

definition matching_columns_neg :: "engine \<Rightarrow> int list \<Rightarrow> string list" where
  "matching_columns_neg eng dimVector =
     map fst (filter (\<lambda>c. map uminus (snd c) = dimVector) (dm_columns (dimMatrix eng)))"

text \<open>Lines 107-152: the combined unit of a parsed input.\<close>

definition combine :: "engine \<Rightarrow> string \<Rightarrow> quantity \<Rightarrow> error + quantity" where
  "combine eng inputUnit q =
     (case filter (\<lambda>k. k \<notin> set (dm_index (dimMatrix eng)))
             (map fst (get_dimensionality (ureg eng) q)) of
        k # ks \<Rightarrow> Inl (MissingDimensionError (k # ks))
      | [] \<Rightarrow>
          (case matching_columns eng (dimVector_of eng q) of
             b # _ \<Rightarrow>
               (case parse_expression (ureg eng) b of
                  None \<Rightarrow> Inl (UndefinedUnitError b)
                | Some baseUnit \<Rightarrow>
                    (case qpow baseUnit (- 1) of
                       Inl e \<Rightarrow> Inl e
                     | Inr p \<Rightarrow> Inr (qmul (units_of q) p)))
           | [] \<Rightarrow>
               (case matching_columns_neg eng (dimVector_of eng q) of
                  b # _ \<Rightarrow>
                    (case parse_expression (ureg eng) b of
                       None \<Rightarrow> Inl (UndefinedUnitError b)
                     | Some baseUnit \<Rightarrow> Inr (qmul (units_of q) baseUnit))
                | [] \<Rightarrow> solve_units eng inputUnit (dimVector_of eng q) (units_of q))))"

text \<open>Lines 153-159: the final checks and the rounding.\<close>

definition sanity_checks :: "engine \<Rightarrow> string \<Rightarrow> quantity \<Rightarrow> error + rat" where
  "sanity_checks eng inputUnit combinedUnit =
     (if \<not> unitless (to_base_units (ureg eng) combinedUnit)
      then Inl (InternalConsistencyError inputUnit)
      else if magnitudeOf (ureg eng) combinedUnit < rat_pow 10 (- roundingDecimalPoints eng)
      then Inl (ToleranceError (magnitudeOf (ureg eng) combinedUnit) inputUnit
                  (rat_pow 10 (- roundingDecimalPoints eng)))
      else Inr (py_round (magnitudeOf (ureg eng) combinedUnit) (roundingDecimalPoints eng)))"

text \<open>
  \<^verbatim>\<open>getUnitMultiplier\<close>. A base unit returns 1 at once. Otherwise a non-string is tested
  with \<^verbatim>\<open>np.isnan\<close>, which returns 1 for \<^verbatim>\<open>nan\<close> and raises \<^verbatim>\<open>TypeError\<close> for \<^verbatim>\<open>None\<close>. Any
  other string is first checked by \<open>checkIfInvalidHourString\<close> and then resolved.
\<close>

definition getUnitMultiplier :: "engine \<Rightarrow> input_unit \<Rightarrow> error + rat" where
  "getUnitMultiplier eng inputUnit =
     (case inputUnit of
        NaN \<Rightarrow> Inr 1
      | NoneValue \<Rightarrow> Inl TypeError
      | Str s \<Rightarrow>
          (if s \<in> set (map fst (baseUnits eng)) then Inr 1
           else
             (case checkIfInvalidHourString eng s of
                Inl e \<Rightarrow> Inl e
              | Inr _ \<Rightarrow>
                  (case parse_expression (ureg eng) s of
                     None \<Rightarrow> Inl (UndefinedUnitError s)
                   | Some q \<Rightarrow>
                       (case combine eng s q of
                          Inl e \<Rightarrow> Inl e
                        | Inr combinedUnit \<Rightarrow> sanity_checks eng s combinedUnit)))))"

text \<open>Constructing the engine for a list of base units and asking it for one multiplier.\<close>

definition multiplier_for ::
  "unit_registry \<Rightarrow> int \<Rightarrow> string list \<Rightarrow> input_unit \<Rightarrow> error + rat" where
  "multiplier_for reg roundDecimalPoints listBaseUnits inputUnit =
     (case getBaseUnits reg roundDecimalPoints listBaseUnits of
        Inl e \<Rightarrow> Inl e
      | Inr (eng, warned) \<Rightarrow> getUnitMultiplier eng inputUnit)"

subsection \<open>A small registry\<close>

text \<open>
  A registry with a few units of the SI and their usual definitions, for concrete runs:
  the strings it parses, and the factor, root units and dimensionality of every unit
  name. As in the registry the class loads, the string \<open>h\<close> is the Planck constant and the
  empty string is the dimensionless quantity 1.
\<close>

definition example_parse :: "(string \<times> quantity) list" where
  "example_parse =
     [([], \<lparr>magnitude = 1, units = []\<rparr>),
      (''kg'', \<lparr>magnitude = 1, units = [(''kilogram'', 1)]\<rparr>),
      (''lb'', \<lparr>magnitude = 1, units = [(''pound'', 1)]\<rparr>),
      (''nanogram'', \<lparr>magnitude = 1, units = [(''nanogram'', 1)]\<rparr>),
      (''m'', \<lparr>magnitude = 1, units = [(''meter'', 1)]\<rparr>),
      (''meter'', \<lparr>magnitude = 1, units = [(''meter'', 1)]\<rparr>),
      (''km'', \<lparr>magnitude = 1, units = [(''kilometer'', 1)]\<rparr>),
      (''1/km'', \<lparr>magnitude = 1, units = [(''kilometer'', - 1)]\<rparr>),
      (''m**2'', \<lparr>magnitude = 1, units = [(''meter'', 2)]\<rparr>),
      (''m**3'', \<lparr>magnitude = 1, units = [(''meter'', 3)]\<rparr>),
      (''m**4'', \<lparr>magnitude = 1, units = [(''meter'', 4)]\<rparr>),
      (''s'', \<lparr>magnitude = 1, units = [(''second'', 1)]\<rparr>),
      (''hour'', \<lparr>magnitude = 1, units = [(''hour'', 1)]\<rparr>),
      (''km/hour'', \<lparr>magnitude = 1, units = [(''kilometer'', 1), (''hour'', - 1)]\<rparr>),
      (''W'', \<lparr>magnitude = 1, units = [(''watt'', 1)]\<rparr>),
      (''J'', \<lparr>magnitude = 1, units = [(''joule'', 1)]\<rparr>),
      (''J*s'', \<lparr>magnitude = 1, units = [(''joule'', 1), (''second'', 1)]\<rparr>),
      (''h'', \<lparr>magnitude = 1, units = [(''planck_constant'', 1)]\<rparr>),
      (''kg*h'', \<lparr>magnitude = 1, units = [(''kilogram'', 1), (''planck_constant'', 1)]\<rparr>),
      (''A'', \<lparr>magnitude = 1, units = [(''ampere'', 1)]\<rparr>),
      (''m/s'', \<lparr>magnitude = 1, units = [(''meter'', 1), (''second'', - 1)]\<rparr>),
      (''kg*m/s'',
         \<lparr>magnitude = 1, units = [(''kilogram'', 1), (''meter'', 1), (''second'', - 1)]\<rparr>),
      (''kg**2/s'', \<lparr>magnitude = 1, units = [(''kilogram'', 2), (''second'', - 1)]\<rparr>),
      (''m/(s*kg)'',
         \<lparr>magnitude = 1, units = [(''meter'', 1), (''second'', - 1), (''kilogram'', - 1)]\<rparr>)]"

definition example_units :: "(string \<times> rat \<times> units_container \<times> units_container) list" where
  "example_units =
     [(''kilogram'', 1, [(''kilogram'', 1)], [(''[mass]'', 1)]),
      (''pound'', 45359237 / 100000000, [(''kilogram'', 1)], [(''[mass]'', 1)]),
      (''nanogram'', 1 / 1000000000000, [(''kilogram'', 1)], [(''[mass]'', 1)]),
      (''meter'', 1, [(''meter'', 1)], [(''[length]'', 1)]),
      (''kilometer'', 1000, [(''meter'', 1)], [(''[length]'', 1)]),
      (''second'', 1, [(''second'', 1)], [(''[time]'', 1)]),
      (''ampere'', 1, [(''ampere'', 1)], [(''[current]'', 1)]),
      (''hour'', 3600, [(''second'', 1)], [(''[time]'', 1)]),
      (''watt'', 1, [(''kilogram'', 1), (''meter'', 2), (''second'', - 3)],
         [(''[mass]'', 1), (''[length]'', 2), (''[time]'', - 3)]),
      (''joule'', 1, [(''kilogram'', 1), (''meter'', 2), (''second'', - 2)],
         [(''[mass]'', 1), (''[length]'', 2), (''[time]'', - 2)]),
      (''planck_constant'', 662607015 / 10 ^ 42,
         [(''kilogram'', 1), (''meter'', 2), (''second'', - 1)],
         [(''[mass]'', 1), (''[length]'', 2), (''[time]'', - 1)])]"

definition example_ureg :: unit_registry where
  "example_ureg =
     \<lparr>parse_expression = map_of example_parse,
      factor = (\<lambda>k. case map_of example_units k of None \<Rightarrow> 1 | Some (f, r, d) \<Rightarrow> f),
      root_units = (\<lambda>k. case map_of example_units k of None \<Rightarrow> [(k, 1)] | Some (f, r, d) \<Rightarrow> r),
      dimension = (\<lambda>k. case map_of example_units k of None \<Rightarrow> [] | Some (f, r, d) \<Rightarrow> d)\<rparr>"

text \<open>The engine that \<open>getBaseUnits\<close> constructs for the base units kg, m, s and W with six
  rounding digits: the watt depends on the other three.\<close>

definition example_engine :: engine where
  "example_engine =
     \<lparr>ureg = example_ureg, roundingDecimalPoints = 6,
      baseUnits =
        [(''kg'', [(''[mass]'', 1)]), (''m'', [(''[length]'', 1)]), (''s'', [(''[time]'', 1)]),
         (''W'', [(''[mass]'', 1), (''[length]'', 2), (''[time]'', - 3)])],
      dimMatrix =
        \<lparr>dm_index = [''[mass]'', ''[length]'', ''[time]''],
         dm_columns =
           [(''kg'', [1, 0, 0]), (''m'', [0, 1, 0]), (''s'', [0, 0, 1]), (''W'', [1, 2, - 3])]\<rparr>,
      dependentUnits = [''W''],
      dependentDims = [[- 1, - 2, 3, 1]]\<rparr>"

definition engine_data ::
  "engine \<Rightarrow> int \<times> (string \<times> units_container) list \<times> dim_matrix \<times> string list \<times> rat list list" where
  "engine_data eng =
     (roundingDecimalPoints eng, baseUnits eng, dimMatrix eng, dependentUnits eng,
      dependentDims eng)"

text \<open>What the construction leaves in the engine besides the registry, with the logged
  warnings.\<close>

definition getBaseUnits_data ::
  "unit_registry \<Rightarrow> int \<Rightarrow> string list
     \<Rightarrow> error + ((int \<times> (string \<times> units_container) list \<times> dim_matrix \<times> string list
                  \<times> rat list list) \<times> string list)" where
  "getBaseUnits_data reg roundDecimalPoints listBaseUnits =
     map_sum id (\<lambda>(eng, warned). (engine_data eng, warned))
       (getBaseUnits reg roundDecimalPoints listBaseUnits)"

text \<open>
  The match rule of step 4 in the words of the specification: the first base unit whose
  column equals the vector, with exponent -1; failing that, the first base unit whose
  negated column equals the vector, with exponent 1.
\<close>

definition direct_or_inverse :: "engine \<Rightarrow> int list \<Rightarrow> (string \<times> int) option" where
  "direct_or_inverse eng v =
     (case matching_columns eng v of
        b # _ \<Rightarrow> Some (b, - 1)
      | [] \<Rightarrow> (case matching_columns_neg eng v of b # _ \<Rightarrow> Some (b, 1) | [] \<Rightarrow> None))"

text \<open>
  The invariant of the dependency record in the words of the specification: there is one
  dependency vector for every dependent unit, and the i-th vector has the entry 1 at the
  column of the i-th dependent unit. \<open>labels\<close> are the column labels of the matrix.
\<close>

definition ones_on_own_columns :: "string list \<Rightarrow> string list \<Rightarrow> rat list list \<Rightarrow> bool" where
  "ones_on_own_columns labels depUnits depDims =
     list_all2
       (\<lambda>unit row. case index_of unit labels of
                      None \<Rightarrow> False
                    | Some j \<Rightarrow> j < length row \<and> row ! j = 1)
       depUnits depDims"





section \<open>Properties\<close>

lemma example_engine_constructed:
  "getBaseUnits_data example_ureg 6 [''kg'', ''m'', ''s'', ''W'']
   = Inr (engine_data example_engine, [])"
  by code_simp

lemma example_engine_keys:
  "map fst (baseUnits example_engine) = [''kg'', ''m'', ''s'', ''W'']"
  by (simp add: example_engine_def)

subsection \<open>Duplicate base units\<close>

lemma duplicated_cong: "set seen = set seen' \<Longrightarrow> duplicated seen cs = duplicated seen' cs"
proof (induction cs arbitrary: seen seen')
  case Nil
  then show ?case by simp
next
  case (Cons x cs)
  obtain l c where x: "x = (l, c)" by (cases x)
  from Cons.prems have "set (c # seen) = set (c # seen')" by simp
  then have "duplicated (c # seen) cs = duplicated (c # seen') cs" by (rule Cons.IH)
  moreover have "duplicated seen cs = duplicated seen' cs" using Cons.prems by (rule Cons.IH)
  ultimately show ?case using Cons.prems by (simp add: x)
qed

lemma duplicated_labels: "set (duplicated seen cs) \<subseteq> set (map fst cs)"
  by (induction seen cs rule: duplicated.induct) auto

lemma duplicated_empty_iff:
  "duplicated seen cs = [] \<longleftrightarrow> distinct (map snd cs) \<and> set (map snd cs) \<inter> set seen = {}"
  by (induction seen cs rule: duplicated.induct) auto

lemma duplicated_append:
  "duplicated seen (xs @ ys) = duplicated seen xs @ duplicated (map snd xs @ seen) ys"
proof (induction xs arbitrary: seen)
  case Nil
  then show ?case by simp
next
  case (Cons x xs)
  obtain l c where x: "x = (l, c)" by (cases x)
  show ?case
  proof (cases "c \<in> set seen")
    case True
    then have "set (map snd xs @ seen) = set (c # map snd xs @ seen)" by auto
    then have "duplicated (map snd xs @ seen) ys = duplicated (c # map snd xs @ seen) ys"
      by (rule duplicated_cong)
    with True Cons.IH [of seen] show ?thesis by (simp add: x)
  next
    case False
    have "set (map snd xs @ c # seen) = set (c # map snd xs @ seen)" by auto
    then have "duplicated (map snd xs @ c # seen) ys = duplicated (c # map snd xs @ seen) ys"
      by (rule duplicated_cong)
    with False Cons.IH [of "c # seen"] show ?thesis by (simp add: x)
  qed
qed

lemma unit_dims_keys: "unit_dims reg bs = Inr rows \<Longrightarrow> map fst rows = bs"
  by (induction bs arbitrary: rows) (auto split: option.splits sum.splits)

lemma make_dimMatrix_labels: "map fst (dm_columns (make_dimMatrix rows)) = map fst rows"
  by (simp add: make_dimMatrix_def Let_def case_prod_unfold comp_def)

lemma map_of_dict_set: "map_of (dict_set k v kvs) = (map_of kvs)(k \<mapsto> v)"
  by (induction kvs) (auto simp: fun_eq_iff)

lemma map_of_fold_dict_set:
  "distinct (map fst rows) \<Longrightarrow> (l, d) \<in> set rows
     \<Longrightarrow> map_of (fold (\<lambda>(b, dimUnit). dict_set b dimUnit) rows acc) l = Some d"
proof (induction rows arbitrary: acc)
  case Nil
  then show ?case by simp
next
  case (Cons x rows)
  obtain b v where x: "x = (b, v)" by (cases x)
  show ?case
  proof (cases "(l, d) \<in> set rows")
    case True
    with Cons show ?thesis by (simp add: x)
  next
    case False
    with Cons.prems have eq: "b = l" "v = d" and notin: "l \<notin> set (map fst rows)"
      by (auto simp: x)
    have keep: "map_of (fold (\<lambda>(b, dimUnit). dict_set b dimUnit) rows acc') l = map_of acc' l"
      if "l \<notin> set (map fst rows)" for acc' :: "(string \<times> 'a) list" and rows
      using that by (induction rows arbitrary: acc') (auto simp: map_of_dict_set)
    from keep [OF notin] show ?thesis by (simp add: x eq map_of_dict_set)
  qed
qed

lemma single_column:
  "distinct (map fst cs) \<Longrightarrow> l \<in> set (map fst cs) \<Longrightarrow> length (filter (\<lambda>c. fst c = l) cs) = 1"
proof (induction cs)
  case Nil
  then show ?case by simp
next
  case (Cons x cs)
  show ?case
  proof (cases "fst x = l")
    case True
    with Cons.prems have "l \<notin> set (map fst cs)" by auto
    then have "filter (\<lambda>c. fst c = l) cs = []" by (auto simp: filter_empty_conv)
    with True show ?thesis by simp
  next
    case False
    with Cons show ?thesis by auto
  qed
qed

text \<open>
  The two branches of lines 46-52. When the listed symbols are pairwise distinct and two
  columns of the matrix coincide, no label heads more than one column, and the construction
  raises the \<^verbatim>\<open>KeyError\<close> of line 52 for the first label that \<^verbatim>\<open>duplicated\<close> marks, with
  its dimensionality. When one symbol is listed twice and no other two columns coincide,
  the check keeps a single column for it, moved to the last position, and logs one warning.
\<close>

lemma distinct_symbols_rejected:
  assumes dims: "unit_dims reg bs = Inr rows"
    and symbols: "distinct bs"
    and same: "\<not> distinct (map snd (dm_columns (make_dimMatrix rows)))"
  shows "\<exists>l ls d. duplicated [] (dm_columns (make_dimMatrix rows)) = l # ls \<and>
           (l, d) \<in> set rows \<and>
           getBaseUnits reg n bs = Inl (DuplicateDimensionError d l)"
proof -
  let ?m = "make_dimMatrix rows"
  from dims have keys: "map fst rows = bs" by (rule unit_dims_keys)
  then have labels: "map fst (dm_columns ?m) = bs" by (simp add: make_dimMatrix_labels)
  from same have "duplicated [] (dm_columns ?m) \<noteq> []" by (simp add: duplicated_empty_iff)
  then obtain l ls where dup: "duplicated [] (dm_columns ?m) = l # ls"
    by (cases "duplicated [] (dm_columns ?m)") auto
  with duplicated_labels [of "[]" "dm_columns ?m"] labels have l: "l \<in> set bs" by auto
  with keys obtain d where d: "(l, d) \<in> set rows" by force
  from symbols keys d have bu: "map_of (make_baseUnits rows) l = Some d"
    by (simp add: make_baseUnits_def map_of_fold_dict_set)
  from symbols labels l have "length (columns_of ?m l) = 1"
    by (simp add: columns_of_def single_column)
  with dup bu have "check_duplicates (make_baseUnits rows) ?m = Inl (DuplicateDimensionError d l)"
    by (simp add: check_duplicates_def)
  with dims have "getBaseUnits reg n bs = Inl (DuplicateDimensionError d l)"
    by (simp add: getBaseUnits_def)
  with d dup show ?thesis by blast
qed

lemma repeated_symbol_dropped:
  assumes cols: "dm_columns m = xs @ (l, c) # ys @ (l, c) # zs"
    and vectors: "distinct (map snd (xs @ (l, c) # ys @ zs))"
    and labels: "l \<notin> set (map fst (xs @ ys @ zs))"
  shows "check_duplicates bu m = Inr (m\<lparr>dm_columns := xs @ ys @ zs @ [(l, c)]\<rparr>, [l])"
proof -
  have first: "duplicated [] (xs @ (l, c) # ys) = []"
    using vectors by (auto simp: duplicated_empty_iff)
  have last: "duplicated (map snd (xs @ (l, c) # ys) @ []) zs = []"
    using vectors by (auto simp: duplicated_empty_iff)
  have "duplicated [] (dm_columns m)
          = duplicated [] (xs @ (l, c) # ys) @ duplicated (map snd (xs @ (l, c) # ys) @ []) ((l, c) # zs)"
    using duplicated_append [of "[]" "xs @ (l, c) # ys" "(l, c) # zs"] by (simp add: cols)
  with first last have dup: "duplicated [] (dm_columns m) = [l]" by simp
  have none: "filter (\<lambda>c. fst c = l) us = []" if "l \<notin> set (map fst us)"
    for us :: "(string \<times> int list) list"
    using that by (auto simp: filter_empty_conv)
  have keep: "filter (\<lambda>c. fst c \<noteq> l) us = us" if "l \<notin> set (map fst us)"
    for us :: "(string \<times> int list) list"
    using that by (induction us) auto
  from labels have n: "l \<notin> set (map fst xs)" "l \<notin> set (map fst ys)" "l \<notin> set (map fst zs)"
    by auto
  have two: "columns_of m l = [c, c]"
    by (simp add: columns_of_def cols none [OF n(1)] none [OF n(2)] none [OF n(3)])
  have rest: "drop_columns [l] (dm_columns m) = xs @ ys @ zs"
    by (simp add: drop_columns_def cols keep [OF n(1)] keep [OF n(2)] keep [OF n(3)])
  show ?thesis by (simp add: check_duplicates_def dup two rest)
qed

text \<open>
  Claim C2: two base units of identical dimensionality and identical magnitude collapse
  to one column with a warning, and only a different magnitude makes the construction
  fail. The comment of line 45 gives the same criterion for the branch that drops the
  column (\<^verbatim>\<open>same order of magnitude and same dimensionality\<close>), but the test of line 46
  asks whether the label heads more than one column of the matrix, which holds only when
  the same symbol is listed again; magnitudes are never compared. \<open>m\<close> and \<open>meter\<close> parse
  to the same quantity, of magnitude 1 and unit \<open>meter\<close>; listing both does not drop
  one of them but raises the \<^verbatim>\<open>KeyError\<close> of line 52, which names \<open>meter\<close>.
\<close>

theorem aliases_raise_duplicate_error:
  "parse_expression example_ureg ''m'' = Some \<lparr>magnitude = 1, units = [(''meter'', 1)]\<rparr> \<and>
   parse_expression example_ureg ''meter'' = Some \<lparr>magnitude = 1, units = [(''meter'', 1)]\<rparr> \<and>
   getBaseUnits_data example_ureg 6 [''m'', ''meter'', ''s'']
     = Inl (DuplicateDimensionError [(''[length]'', 1)] ''meter'')"
  by code_simp

subsection \<open>Constructible base units\<close>









subsection \<open>The order of the dependency vectors\<close>

text \<open>
  Claim C4: after the reordering step completes without error, the i-th dependency vector
  has the entry 1 at the column of the i-th dependent unit. For the base units m, m**2,
  m**3, m**4 and s the construction completes, the dependent units are m**2, m**3 and
  m**4, and the three vectors come out in the order of m**4, m**2, m**3: line 79 orders the
  rows by the column positions of the ones, which undoes a permutation only when it is
  its own inverse. The first vector has 0 in the column of m**2.
\<close>

theorem cyclic_reorder_breaks_invariant:
  "getBaseUnits_data example_ureg 6 [''m'', ''m**2'', ''m**3'', ''m**4'', ''s''] =
     Inr ((6,
           [(''m'', [(''[length]'', 1)]), (''m**2'', [(''[length]'', 2)]),
            (''m**3'', [(''[length]'', 3)]), (''m**4'', [(''[length]'', 4)]),
            (''s'', [(''[time]'', 1)])],
           \<lparr>dm_index = [''[length]'', ''[time]''],
            dm_columns = [(''m'', [1, 0]), (''m**2'', [2, 0]), (''m**3'', [3, 0]),
                          (''m**4'', [4, 0]), (''s'', [0, 1])]\<rparr>,
           [''m**2'', ''m**3'', ''m**4''],
           [[- 4, 0, 0, 1, 0], [- 2, 1, 0, 0, 0], [- 3, 0, 1, 0, 0]]), []) \<and>
   \<not> ones_on_own_columns [''m'', ''m**2'', ''m**3'', ''m**4'', ''s'']
        [''m**2'', ''m**3'', ''m**4'']
        [[- 4, 0, 0, 1, 0], [- 2, 1, 0, 0, 0], [- 3, 0, 1, 0, 0]]"
  by code_simp

subsection \<open>The identity rule and the absent unit\<close>

text \<open>
  Claim C8. For every configured base-unit symbol \<open>b\<close>, \<open>getUnitMultiplier\<close> returns exactly 1.
  The registry, the rounding digits, the matrix and the dependency record are replaced by
  arbitrary values in the statement: the result does not depend on them, so neither the
  unit knowledge nor any later resolution step is consulted.
\<close>

theorem base_unit_multiplier_is_one:
  assumes "b \<in> set (map fst (baseUnits eng))"
  shows "getUnitMultiplier
           (eng\<lparr>ureg := reg, roundingDecimalPoints := n, dimMatrix := m,
                dependentUnits := du, dependentDims := dd\<rparr>) (Str b) = Inr 1"
  using assms by (simp add: getUnitMultiplier_def)

theorem base_unit_multiplier_is_one_witness:
  "''kg'' \<in> set (map fst (baseUnits example_engine)) \<and>
   getUnitMultiplier
     (example_engine\<lparr>ureg := example_ureg, roundingDecimalPoints := 6,
        dimMatrix := dimMatrix example_engine, dependentUnits := [''W''],
        dependentDims := [[- 1, - 2, 3, 1]]\<rparr>) (Str ''kg'') = Inr 1"
proof -
  have h: "''kg'' \<in> set (map fst (baseUnits example_engine))"
    by (simp add: example_engine_keys)
  from base_unit_multiplier_is_one [OF h] h show ?thesis by blast
qed

text \<open>
  Claim C9, as stated: an absent unit returns 1 in whatever way the caller expresses it,
  the empty string included. The code returns 1 only in the \<^verbatim>\<open>nan\<close> branch. The empty
  string is a string, so it is resolved like any other unit; for the base units W, s and
  J*s the reduced matrix has three rows and two columns and the solve raises
  \<^verbatim>\<open>LinAlgError\<close>.
\<close>

theorem empty_string_counterexample:
  "multiplier_for example_ureg 6 [''W'', ''s'', ''J*s''] (Str []) = Inl LinAlgError"
  by code_simp

text \<open>
  Claim C9, amended: for the absent unit as the code tests it, a non-string \<^verbatim>\<open>nan\<close>,
  \<open>getUnitMultiplier\<close> returns 1, for every engine.
\<close>

theorem nan_multiplier_is_one: "getUnitMultiplier eng NaN = Inr 1"
  by (simp add: getUnitMultiplier_def)

theorem nan_multiplier_is_one_witness: "getUnitMultiplier example_engine NaN = Inr 1"
  by (rule nan_multiplier_is_one)

subsection \<open>The hour guard\<close>

lemma hour_guard:
  assumes "s \<notin> set (map fst (baseUnits eng))"
    and "parse_expression (ureg eng) s = Some q"
    and "''planck_constant'' \<in> set (map fst (units q))"
  shows "getUnitMultiplier eng (Str s) = Inl (AmbiguousUnitTokenError s)"
  using assms by (simp add: getUnitMultiplier_def checkIfInvalidHourString_def)

lemma example_parse_h:
  "parse_expression (ureg example_engine) ''h''
     = Some \<lparr>magnitude = 1, units = [(''planck_constant'', 1)]\<rparr>"
  by (simp add: example_engine_def example_ureg_def example_parse_def)

lemma example_parse_kg_h:
  "parse_expression (ureg example_engine) ''kg*h''
     = Some \<lparr>magnitude = 1, units = [(''kilogram'', 1), (''planck_constant'', 1)]\<rparr>"
  by (simp add: example_engine_def example_ureg_def example_parse_def)

text \<open>
  Claim C1, as stated: \<open>getUnitMultiplier\<close> fails on the string \<open>h\<close> for every configuration,
  even when \<open>h\<close> is itself a base unit. The identity rule of line 98 comes first: with the
  base units kg, m, s and h the engine is constructed and the call returns 1.
\<close>

theorem h_base_unit_counterexample:
  "multiplier_for example_ureg 6 [''kg'', ''m'', ''s'', ''h''] (Str ''h'') = Inr 1"
  by code_simp

text \<open>
  Claim C1, amended: whenever \<open>h\<close> is not among the configured base-unit symbols and the
  registry reads \<open>h\<close> as the token \<open>planck_constant\<close>, \<open>getUnitMultiplier\<close> fails on \<open>h\<close>
  with the ambiguous-unit error, whatever the base units, matrix and dependency record
  are.
\<close>

theorem bare_h_rejected:
  assumes "''h'' \<notin> set (map fst (baseUnits eng))"
    and "parse_expression (ureg eng) ''h'' = Some q"
    and "''planck_constant'' \<in> set (map fst (units q))"
  shows "getUnitMultiplier eng (Str ''h'') = Inl (AmbiguousUnitTokenError ''h'')"
  using assms by (rule hour_guard)

theorem bare_h_rejected_witness:
  "''h'' \<notin> set (map fst (baseUnits example_engine)) \<and>
   parse_expression (ureg example_engine) ''h''
     = Some \<lparr>magnitude = 1, units = [(''planck_constant'', 1)]\<rparr> \<and>
   ''planck_constant'' \<in> set (map fst (units \<lparr>magnitude = 1, units = [(''planck_constant'', 1)]\<rparr>)) \<and>
   getUnitMultiplier example_engine (Str ''h'') = Inl (AmbiguousUnitTokenError ''h'')"
proof -
  have h1: "''h'' \<notin> set (map fst (baseUnits example_engine))"
    by (simp add: example_engine_keys)
  have h3: "''planck_constant''
      \<in> set (map fst (units \<lparr>magnitude = 1, units = [(''planck_constant'', 1)]\<rparr>))"
    by simp
  from bare_h_rejected [OF h1 example_parse_h h3] h1 example_parse_h h3
  show ?thesis by blast
qed

text \<open>
  Claim C10. The guard is not limited to the bare string \<open>h\<close>: for every input string that
  is not a base-unit symbol and whose parsed factor list contains the token
  \<open>planck_constant\<close>, \<open>getUnitMultiplier\<close> fails with the ambiguous-unit error. The rounding
  digits, the matrix and the dependency record are arbitrary in the statement, so no
  dimensionality resolution takes part in the result.
\<close>

theorem planck_token_rejected:
  assumes "s \<notin> set (map fst (baseUnits eng))"
    and "parse_expression (ureg eng) s = Some q"
    and "''planck_constant'' \<in> set (map fst (units q))"
  shows "getUnitMultiplier
           (eng\<lparr>roundingDecimalPoints := n, dimMatrix := m,
                dependentUnits := du, dependentDims := dd\<rparr>) (Str s)
         = Inl (AmbiguousUnitTokenError s)"
  using assms by (simp add: getUnitMultiplier_def checkIfInvalidHourString_def)

theorem planck_token_rejected_witness:
  "''kg*h'' \<notin> set (map fst (baseUnits example_engine)) \<and>
   parse_expression (ureg example_engine) ''kg*h''
     = Some \<lparr>magnitude = 1, units = [(''kilogram'', 1), (''planck_constant'', 1)]\<rparr> \<and>
   ''planck_constant''
     \<in> set (map fst (units \<lparr>magnitude = 1,
                              units = [(''kilogram'', 1), (''planck_constant'', 1)]\<rparr>)) \<and>
   getUnitMultiplier
     (example_engine\<lparr>roundingDecimalPoints := 6, dimMatrix := dimMatrix example_engine,
        dependentUnits := [''W''], dependentDims := [[- 1, - 2, 3, 1]]\<rparr>) (Str ''kg*h'')
     = Inl (AmbiguousUnitTokenError ''kg*h'')"
proof -
  have h1: "''kg*h'' \<notin> set (map fst (baseUnits example_engine))"
    by (simp add: example_engine_keys)
  have h3: "''planck_constant''
      \<in> set (map fst (units \<lparr>magnitude = 1,
                               units = [(''kilogram'', 1), (''planck_constant'', 1)]\<rparr>))"
    by simp
  from planck_token_rejected [OF h1 example_parse_kg_h h3] h1 example_parse_kg_h h3
  show ?thesis by blast
qed

subsection \<open>Powers\<close>

lemma rat_pow_power_int: "rat_pow x e = power_int x e"
  by (simp add: rat_pow_def power_int_def)

lemma uc_pow_one: "uc_pow us 1 = us"
  by (induction us) (auto simp: uc_pow_def)

subsection \<open>The final checks\<close>

lemma getUnitMultiplier_resolved:
  assumes "s \<notin> set (map fst (baseUnits eng))"
    and "checkIfInvalidHourString eng s = Inr ()"
    and "parse_expression (ureg eng) s = Some q"
    and "combine eng s q = Inr c"
  shows "getUnitMultiplier eng (Str s) = sanity_checks eng s c"
  using assms by (simp add: getUnitMultiplier_def)

lemma sanity_checks_returns:
  "sanity_checks eng s c = Inr r
     \<Longrightarrow> r = py_round (magnitudeOf (ureg eng) c) (roundingDecimalPoints eng)"
  by (auto simp: sanity_checks_def split: if_splits)

lemma rat_pow_pos: "0 < x \<Longrightarrow> 0 < rat_pow x e"
  by (simp add: rat_pow_power_int)

lemma rat_pow_minus: "rat_pow x (- e) = inverse (rat_pow x e)"
  by (simp add: rat_pow_power_int power_int_minus)

lemma round_half_even_ge_one: "1 \<le> y \<Longrightarrow> 1 \<le> round_half_even y"
proof -
  assume "1 \<le> y"
  then have "1 \<le> \<lfloor>y\<rfloor>" by linarith
  then show ?thesis by (simp add: round_half_even_def Let_def)
qed

lemma py_round_lower_bound:
  assumes "rat_pow 10 (- n) \<le> x"
  shows "rat_pow 10 (- n) \<le> py_round x n"
proof -
  have p: "0 < rat_pow 10 n" by (simp add: rat_pow_pos)
  have inv: "rat_pow 10 (- n) = 1 / rat_pow 10 n"
    by (simp add: rat_pow_minus inverse_eq_divide)
  from assms inv have "1 / rat_pow 10 n \<le> x" by simp
  with p have "1 \<le> x * rat_pow 10 n" by (simp add: pos_divide_le_eq)
  then have "1 \<le> round_half_even (x * rat_pow 10 n)" by (rule round_half_even_ge_one)
  then have "(1::rat) \<le> of_int (round_half_even (x * rat_pow 10 n))" by simp
  with p have "1 / rat_pow 10 n \<le> of_int (round_half_even (x * rat_pow 10 n)) / rat_pow 10 n"
    by (simp add: divide_right_mono)
  with inv show ?thesis by (simp add: py_round_def)
qed

text \<open>
  Claim C7. For every input unit that reaches the final checks with a combined unit that
  reduces to a dimensionless magnitude, \<open>getUnitMultiplier\<close> fails with the tolerance error
  when that magnitude is strictly below \<open>10^(-roundingDecimalPoints)\<close>, and otherwise
  returns the magnitude rounded to \<open>roundingDecimalPoints\<close> digits; every multiplier it
  returns is at least \<open>10^(-roundingDecimalPoints)\<close>.
\<close>

theorem tolerance_check:
  assumes "s \<notin> set (map fst (baseUnits eng))"
    and "checkIfInvalidHourString eng s = Inr ()"
    and "parse_expression (ureg eng) s = Some q"
    and "combine eng s q = Inr c"
    and "unitless (to_base_units (ureg eng) c)"
  shows "getUnitMultiplier eng (Str s) =
           (if magnitudeOf (ureg eng) c < rat_pow 10 (- roundingDecimalPoints eng)
            then Inl (ToleranceError (magnitudeOf (ureg eng) c) s
                        (rat_pow 10 (- roundingDecimalPoints eng)))
            else Inr (py_round (magnitudeOf (ureg eng) c) (roundingDecimalPoints eng)))
         \<and> (\<forall>r. getUnitMultiplier eng (Str s) = Inr r
                \<longrightarrow> rat_pow 10 (- roundingDecimalPoints eng) \<le> r)"
proof -
  have eq: "getUnitMultiplier eng (Str s) = sanity_checks eng s c"
    using assms(1-4) by (rule getUnitMultiplier_resolved)
  have first: "sanity_checks eng s c =
           (if magnitudeOf (ureg eng) c < rat_pow 10 (- roundingDecimalPoints eng)
            then Inl (ToleranceError (magnitudeOf (ureg eng) c) s
                        (rat_pow 10 (- roundingDecimalPoints eng)))
            else Inr (py_round (magnitudeOf (ureg eng) c) (roundingDecimalPoints eng)))"
    using assms(5) by (simp add: sanity_checks_def)
  have second: "rat_pow 10 (- roundingDecimalPoints eng) \<le> r"
    if "sanity_checks eng s c = Inr r" for r
  proof -
    from that first have ge: "\<not> magnitudeOf (ureg eng) c < rat_pow 10 (- roundingDecimalPoints eng)"
      and r: "r = py_round (magnitudeOf (ureg eng) c) (roundingDecimalPoints eng)"
      by (auto split: if_splits)
    from ge have "rat_pow 10 (- roundingDecimalPoints eng) \<le> magnitudeOf (ureg eng) c" by simp
    then show ?thesis unfolding r by (rule py_round_lower_bound)
  qed
  from eq first second show ?thesis by simp
qed

theorem tolerance_check_witness:
  "''lb'' \<notin> set (map fst (baseUnits example_engine)) \<and>
   checkIfInvalidHourString example_engine ''lb'' = Inr () \<and>
   parse_expression (ureg example_engine) ''lb'' = Some \<lparr>magnitude = 1, units = [(''pound'', 1)]\<rparr> \<and>
   combine example_engine ''lb'' \<lparr>magnitude = 1, units = [(''pound'', 1)]\<rparr>
     = Inr \<lparr>magnitude = 1, units = [(''pound'', 1), (''kilogram'', - 1)]\<rparr> \<and>
   unitless (to_base_units (ureg example_engine)
               \<lparr>magnitude = 1, units = [(''pound'', 1), (''kilogram'', - 1)]\<rparr>) \<and>
   getUnitMultiplier example_engine (Str ''lb'') = Inr (453592 / 1000000) \<and>
   rat_pow 10 (- roundingDecimalPoints example_engine) \<le> 453592 / 1000000 \<and>
   ''nanogram'' \<notin> set (map fst (baseUnits example_engine)) \<and>
   checkIfInvalidHourString example_engine ''nanogram'' = Inr () \<and>
   parse_expression (ureg example_engine) ''nanogram''
     = Some \<lparr>magnitude = 1, units = [(''nanogram'', 1)]\<rparr> \<and>
   combine example_engine ''nanogram'' \<lparr>magnitude = 1, units = [(''nanogram'', 1)]\<rparr>
     = Inr \<lparr>magnitude = 1, units = [(''nanogram'', 1), (''kilogram'', - 1)]\<rparr> \<and>
   unitless (to_base_units (ureg example_engine)
               \<lparr>magnitude = 1, units = [(''nanogram'', 1), (''kilogram'', - 1)]\<rparr>) \<and>
   magnitudeOf (ureg example_engine)
       \<lparr>magnitude = 1, units = [(''nanogram'', 1), (''kilogram'', - 1)]\<rparr>
     < rat_pow 10 (- roundingDecimalPoints example_engine) \<and>
   getUnitMultiplier example_engine (Str ''nanogram'') =
     Inl (ToleranceError
            (magnitudeOf (ureg example_engine)
               \<lparr>magnitude = 1, units = [(''nanogram'', 1), (''kilogram'', - 1)]\<rparr>)
            ''nanogram'' (rat_pow 10 (- roundingDecimalPoints example_engine)))"
proof -
  let ?q = "\<lparr>magnitude = 1, units = [(''pound'', 1)]\<rparr>"
  let ?c = "\<lparr>magnitude = 1, units = [(''pound'', 1), (''kilogram'', - 1)]\<rparr>"
  let ?q' = "\<lparr>magnitude = 1, units = [(''nanogram'', 1)]\<rparr>"
  let ?c' = "\<lparr>magnitude = 1, units = [(''nanogram'', 1), (''kilogram'', - 1)]\<rparr>"
  have a1: "''lb'' \<notin> set (map fst (baseUnits example_engine))"
    by (simp add: example_engine_keys)
  have a2: "checkIfInvalidHourString example_engine ''lb'' = Inr ()" by code_simp
  have a3: "parse_expression (ureg example_engine) ''lb'' = Some ?q" by code_simp
  have a4: "combine example_engine ''lb'' ?q = Inr ?c" by code_simp
  have a5: "unitless (to_base_units (ureg example_engine) ?c)" by code_simp
  have a6: "getUnitMultiplier example_engine (Str ''lb'') = Inr (453592 / 1000000)" by code_simp
  have b1: "''nanogram'' \<notin> set (map fst (baseUnits example_engine))"
    by (simp add: example_engine_keys)
  have b2: "checkIfInvalidHourString example_engine ''nanogram'' = Inr ()" by code_simp
  have b3: "parse_expression (ureg example_engine) ''nanogram'' = Some ?q'" by code_simp
  have b4: "combine example_engine ''nanogram'' ?q' = Inr ?c'" by code_simp
  have b5: "unitless (to_base_units (ureg example_engine) ?c')" by code_simp
  have b6: "magnitudeOf (ureg example_engine) ?c'
              < rat_pow 10 (- roundingDecimalPoints example_engine)" by code_simp
  note lb = tolerance_check [OF a1 a2 a3 a4 a5]
  note ng = tolerance_check [OF b1 b2 b3 b4 b5]
  from lb [THEN conjunct2, rule_format, OF a6]
  have a7: "rat_pow 10 (- roundingDecimalPoints example_engine) \<le> 453592 / 1000000" .
  from ng [THEN conjunct1] b6
  have b7: "getUnitMultiplier example_engine (Str ''nanogram'') =
     Inl (ToleranceError (magnitudeOf (ureg example_engine) ?c') ''nanogram''
            (rat_pow 10 (- roundingDecimalPoints example_engine)))"
    by simp
  from a1 a2 a3 a4 a5 a6 a7 b1 b2 b3 b4 b5 b6 b7 show ?thesis by (intro conjI)
qed

subsection \<open>Direct and inverse match\<close>

lemma no_missing_dimension:
  "set ks \<subseteq> set idx \<Longrightarrow> filter (\<lambda>k. k \<notin> set idx) ks = []"
  by (auto simp: filter_empty_conv)

text \<open>
  Claim C6. For an input unit that is not a base-unit symbol (and that passes the hour
  guard and the missing-dimension check that precede the match): when some base unit's
  column equals the dimensionality vector of the input, the combined unit is the input
  unit times the first such base unit to the power -1; when instead the negation of a
  column equals it, the combined unit is the input unit times that base unit to the
  power 1. What \<open>getUnitMultiplier\<close> returns is the magnitude of this combined unit, as the
  final checks of lines 153-159 pass it on (rounded to \<open>roundingDecimalPoints\<close> digits).
\<close>

theorem direct_inverse_match:
  assumes notbase: "s \<notin> set (map fst (baseUnits eng))"
    and guard: "checkIfInvalidHourString eng s = Inr ()"
    and parse: "parse_expression (ureg eng) s = Some q"
    and dims: "set (map fst (get_dimensionality (ureg eng) q)) \<subseteq> set (dm_index (dimMatrix eng))"
    and rule: "direct_or_inverse eng (dimVector_of eng q) = Some (b, e)"
    and base: "parse_expression (ureg eng) b = Some bq"
    and nonzero: "magnitude bq \<noteq> 0"
  shows "combine eng s q =
           Inr (qmul (units_of q)
                  \<lparr>magnitude = rat_pow (magnitude bq) e, units = uc_pow (units bq) e\<rparr>) \<and>
         getUnitMultiplier eng (Str s) =
           sanity_checks eng s
             (qmul (units_of q)
                \<lparr>magnitude = rat_pow (magnitude bq) e, units = uc_pow (units bq) e\<rparr>) \<and>
         (\<forall>r. getUnitMultiplier eng (Str s) = Inr r \<longrightarrow>
              r = py_round
                    (magnitudeOf (ureg eng)
                       (qmul (units_of q)
                          \<lparr>magnitude = rat_pow (magnitude bq) e, units = uc_pow (units bq) e\<rparr>))
                    (roundingDecimalPoints eng))"
proof -
  let ?c = "qmul (units_of q) \<lparr>magnitude = rat_pow (magnitude bq) e, units = uc_pow (units bq) e\<rparr>"
  have md: "filter (\<lambda>k. k \<notin> set (dm_index (dimMatrix eng)))
              (map fst (get_dimensionality (ureg eng) q)) = []"
    using dims by (rule no_missing_dimension)
  have comb: "combine eng s q = Inr ?c"
  proof (cases "matching_columns eng (dimVector_of eng q)")
    case (Cons b' bs)
    with rule have b: "b' = b" and e: "e = - 1" by (simp_all add: direct_or_inverse_def)
    from nonzero have "qpow bq (- 1) = Inr \<lparr>magnitude = rat_pow (magnitude bq) (- 1),
                                            units = uc_pow (units bq) (- 1)\<rparr>"
      by (simp add: qpow_def)
    then show ?thesis using md Cons b e base by (simp add: combine_def)
  next
    case Nil
    show ?thesis
    proof (cases "matching_columns_neg eng (dimVector_of eng q)")
      case (Cons b' bs)
      with rule Nil have b: "b' = b" and e: "e = 1" by (simp_all add: direct_or_inverse_def)
      have "\<lparr>magnitude = rat_pow (magnitude bq) 1, units = uc_pow (units bq) 1\<rparr> = bq"
        by (simp add: uc_pow_one rat_pow_def)
      then show ?thesis using md Nil Cons b e base by (simp add: combine_def)
    next
      case Nil': Nil
      with rule Nil show ?thesis by (simp add: direct_or_inverse_def)
    qed
  qed
  have eq: "getUnitMultiplier eng (Str s) = sanity_checks eng s ?c"
    using notbase guard parse comb by (rule getUnitMultiplier_resolved)
  have ret: "r = py_round (magnitudeOf (ureg eng) ?c) (roundingDecimalPoints eng)"
    if "getUnitMultiplier eng (Str s) = Inr r" for r
    using that eq sanity_checks_returns [of eng s ?c r] by simp
  from comb eq ret show ?thesis by blast
qed

theorem direct_inverse_match_witness:
  "''lb'' \<notin> set (map fst (baseUnits example_engine)) \<and>
   checkIfInvalidHourString example_engine ''lb'' = Inr () \<and>
   parse_expression (ureg example_engine) ''lb'' = Some \<lparr>magnitude = 1, units = [(''pound'', 1)]\<rparr> \<and>
   direct_or_inverse example_engine
     (dimVector_of example_engine \<lparr>magnitude = 1, units = [(''pound'', 1)]\<rparr>) = Some (''kg'', - 1) \<and>
   parse_expression (ureg example_engine) ''kg''
     = Some \<lparr>magnitude = 1, units = [(''kilogram'', 1)]\<rparr> \<and>
   combine example_engine ''lb'' \<lparr>magnitude = 1, units = [(''pound'', 1)]\<rparr> =
     Inr (qmul (units_of \<lparr>magnitude = 1, units = [(''pound'', 1)]\<rparr>)
            \<lparr>magnitude = rat_pow (magnitude \<lparr>magnitude = 1, units = [(''kilogram'', 1)]\<rparr>) (- 1),
               units = uc_pow (units \<lparr>magnitude = 1, units = [(''kilogram'', 1)]\<rparr>) (- 1)\<rparr>) \<and>
   getUnitMultiplier example_engine (Str ''lb'') = Inr (453592 / 1000000) \<and>
   ''1/km'' \<notin> set (map fst (baseUnits example_engine)) \<and>
   checkIfInvalidHourString example_engine ''1/km'' = Inr () \<and>
   parse_expression (ureg example_engine) ''1/km''
     = Some \<lparr>magnitude = 1, units = [(''kilometer'', - 1)]\<rparr> \<and>
   direct_or_inverse example_engine
     (dimVector_of example_engine \<lparr>magnitude = 1, units = [(''kilometer'', - 1)]\<rparr>) = Some (''m'', 1) \<and>
   parse_expression (ureg example_engine) ''m'' = Some \<lparr>magnitude = 1, units = [(''meter'', 1)]\<rparr> \<and>
   combine example_engine ''1/km'' \<lparr>magnitude = 1, units = [(''kilometer'', - 1)]\<rparr> =
     Inr (qmul (units_of \<lparr>magnitude = 1, units = [(''kilometer'', - 1)]\<rparr>)
            \<lparr>magnitude = rat_pow (magnitude \<lparr>magnitude = 1, units = [(''meter'', 1)]\<rparr>) 1,
               units = uc_pow (units \<lparr>magnitude = 1, units = [(''meter'', 1)]\<rparr>) 1\<rparr>) \<and>
   getUnitMultiplier example_engine (Str ''1/km'') = Inr (1 / 1000)"
proof -
  let ?q = "\<lparr>magnitude = 1, units = [(''pound'', 1)]\<rparr>"
  let ?b = "\<lparr>magnitude = 1, units = [(''kilogram'', 1)]\<rparr>"
  let ?q' = "\<lparr>magnitude = 1, units = [(''kilometer'', - 1)]\<rparr>"
  let ?b' = "\<lparr>magnitude = 1, units = [(''meter'', 1)]\<rparr>"
  have a1: "''lb'' \<notin> set (map fst (baseUnits example_engine))"
    by (simp add: example_engine_keys)
  have a2: "checkIfInvalidHourString example_engine ''lb'' = Inr ()" by code_simp
  have a3: "parse_expression (ureg example_engine) ''lb'' = Some ?q" by code_simp
  have a4: "set (map fst (get_dimensionality (ureg example_engine) ?q))
              \<subseteq> set (dm_index (dimMatrix example_engine))" by code_simp
  have a5: "direct_or_inverse example_engine (dimVector_of example_engine ?q) = Some (''kg'', - 1)"
    by code_simp
  have a6: "parse_expression (ureg example_engine) ''kg'' = Some ?b" by code_simp
  have a7: "magnitude ?b \<noteq> 0" by simp
  have a8: "getUnitMultiplier example_engine (Str ''lb'') = Inr (453592 / 1000000)" by code_simp
  have b1: "''1/km'' \<notin> set (map fst (baseUnits example_engine))"
    by (simp add: example_engine_keys)
  have b2: "checkIfInvalidHourString example_engine ''1/km'' = Inr ()" by code_simp
  have b3: "parse_expression (ureg example_engine) ''1/km'' = Some ?q'" by code_simp
  have b4: "set (map fst (get_dimensionality (ureg example_engine) ?q'))
              \<subseteq> set (dm_index (dimMatrix example_engine))" by code_simp
  have b5: "direct_or_inverse example_engine (dimVector_of example_engine ?q') = Some (''m'', 1)"
    by code_simp
  have b6: "parse_expression (ureg example_engine) ''m'' = Some ?b'" by code_simp
  have b7: "magnitude ?b' \<noteq> 0" by simp
  have b8: "getUnitMultiplier example_engine (Str ''1/km'') = Inr (1 / 1000)" by code_simp
  note direct = direct_inverse_match [OF a1 a2 a3 a4 a5 a6 a7, THEN conjunct1]
  note inverse = direct_inverse_match [OF b1 b2 b3 b4 b5 b6 b7, THEN conjunct1]
  from a1 a2 a3 a5 a6 direct a8 b1 b2 b3 b5 b6 inverse b8 show ?thesis by (intro conjI)
qed

end
